theory Spec2Isabelle
  imports Complex_Main "HOL-Library.Sublist"
begin

section \<open>Data model of \<open>measure/_marching_cubes.py\<close>\<close>

text \<open>
  Double-precision numbers are idealised as reals. The one place where the code divides
  (the two row normalisations of \<open>correct_mesh_orientation\<close>) is written out, because
  numpy answers \<open>0/0\<close> with \<open>nan\<close> and HOL answers it with \<open>0\<close>.

  Whether two calls of \<open>correct_mesh_orientation\<close> undo each other depends on how the
  cross product is rounded. For that question the function is embedded a second time,
  over binary64 numbers with their rounding.

  A vertex is a row of a \<open>(V, 3)\<close> float array, a face a row of an \<open>(F, 3)\<close>
  integer array.
\<close>

type_synonym vec = "real \<times> real \<times> real"
type_synonym face = "int \<times> int \<times> int"
type_synonym spacing = "real \<times> real \<times> real"

datatype error = IndexError | ValueError string

subsection \<open>Row arithmetic\<close>

fun vsub :: "vec \<Rightarrow> vec \<Rightarrow> vec" where
  "vsub (x0, x1, x2) (y0, y1, y2) = (x0 - y0, x1 - y1, x2 - y2)"

text \<open>\<open>np.cross\<close> on two rows of length 3.\<close>

fun cross :: "vec \<Rightarrow> vec \<Rightarrow> vec" where
  "cross (a0, a1, a2) (b0, b1, b2) =
     (a1 * b2 - a2 * b1, a2 * b0 - a0 * b2, a0 * b1 - a1 * b0)"

text \<open>\<open>(x ** 2).sum(axis=1)\<close> for one row.\<close>

fun sumsq :: "vec \<Rightarrow> real" where
  "sumsq (x0, x1, x2) = x0\<^sup>2 + x1\<^sup>2 + x2\<^sup>2"

text \<open>\<open>(x ** 2).sum(axis=1) ** 0.5\<close> for one row.\<close>

definition row_norm :: "vec \<Rightarrow> real" where
  "row_norm x = sqrt (sumsq x)"

subsection \<open>Indexing\<close>

text \<open>
  numpy indexing of an array of \<open>n\<close> rows by an integer: indices from \<open>-n\<close> to \<open>n - 1\<close>
  are accepted, the negative ones counting from the end; every other index raises
  \<open>IndexError\<close>.
\<close>

definition in_bounds :: "nat \<Rightarrow> int \<Rightarrow> bool" where
  "in_bounds n i \<longleftrightarrow> - int n \<le> i \<and> i < int n"

definition wrap_index :: "nat \<Rightarrow> int \<Rightarrow> nat" where
  "wrap_index n i = nat (if i < 0 then int n + i else i)"

definition getrow :: "'a list \<Rightarrow> int \<Rightarrow> 'a" where
  "getrow xs i = xs ! wrap_index (length xs) i"

definition face_in_bounds :: "nat \<Rightarrow> face \<Rightarrow> bool" where
  "face_in_bounds n f =
     (case f of (i, j, k) \<Rightarrow> in_bounds n i \<and> in_bounds n j \<and> in_bounds n k)"

text \<open>
  \<open>verts[faces]\<close>: fancy indexing of the vertex rows by the whole face array. The result
  is a fresh \<open>(F, 3, 3)\<close> array; one index out of range fails the whole expression.
\<close>

definition fancy_index :: "vec list \<Rightarrow> face list \<Rightarrow> error + (vec \<times> vec \<times> vec) list" where
  "fancy_index verts faces =
     (if list_all (face_in_bounds (length verts)) faces
      then Inr (map (\<lambda>(i, j, k). (getrow verts i, getrow verts j, getrow verts k)) faces)
      else Inl IndexError)"

section \<open>\<open>mesh_surface_area\<close>\<close>

definition mesh_surface_area :: "vec list \<Rightarrow> face list \<Rightarrow> error + real" where
  "mesh_surface_area verts faces =
     (case fancy_index verts faces of
        Inl e \<Rightarrow> Inl e
      | Inr actual_verts \<Rightarrow>
          let a = map (\<lambda>(v0, v1, v2). vsub v0 v1) actual_verts;
              b = map (\<lambda>(v0, v1, v2). vsub v0 v2) actual_verts
          in Inr (sum_list (map row_norm (map2 cross a b)) / 2))"

text \<open>
  The area of one face as the specification words it: with \<open>a = v0 - v1\<close> and
  \<open>b = v0 - v2\<close>, one half of the Euclidean norm of \<open>a \<times> b\<close>.
\<close>

definition face_area :: "vec list \<Rightarrow> face \<Rightarrow> real" where
  "face_area verts f =
     (case f of (i, j, k) \<Rightarrow>
        let v0 = getrow verts i; v1 = getrow verts j; v2 = getrow verts k;
            a = vsub v0 v1; b = vsub v0 v2
        in sqrt (sumsq (cross a b)) / 2)"

text \<open>A degenerate face: two of its three indices name the same coordinate.\<close>

definition repeated_vertex :: "vec list \<Rightarrow> face \<Rightarrow> bool" where
  "repeated_vertex verts f =
     (case f of (i, j, k) \<Rightarrow>
        getrow verts i = getrow verts j \<or> getrow verts i = getrow verts k
        \<or> getrow verts j = getrow verts k)"

section \<open>\<open>correct_mesh_orientation\<close>\<close>

subsection \<open>Arrays and references\<close>

text \<open>
  \<open>correct_mesh_orientation\<close> receives references to numpy arrays, copies one of them and
  writes into the copy. Arrays therefore live in a store, addressed by position; a new
  array is appended to the store.
\<close>

datatype ndarray = FloatArr "vec list" | IntArr "face list"

type_synonym heap = "ndarray list"
type_synonym ref = nat

definition alloc :: "heap \<Rightarrow> ndarray \<Rightarrow> ref \<times> heap" where
  "alloc h arr = (length h, h @ [arr])"

text \<open>The rows of an array read as coordinates; integer entries are promoted to floats.\<close>

fun as_verts :: "ndarray \<Rightarrow> vec list" where
  "as_verts (FloatArr vs) = vs"
| "as_verts (IntArr fs) = map (\<lambda>(i, j, k). (of_int i, of_int j, of_int k)) fs"

subsection \<open>Rows that may hold nan\<close>

fun vadd :: "vec \<Rightarrow> vec \<Rightarrow> vec" where
  "vadd (x0, x1, x2) (y0, y1, y2) = (x0 + y0, x1 + y1, x2 + y2)"

fun vdiv :: "vec \<Rightarrow> real \<Rightarrow> vec" where
  "vdiv (x0, x1, x2) c = (x0 / c, x1 / c, x2 / c)"

text \<open>
  A row divided by its own norm. The norm of a real row is 0 only for the zero row, where
  numpy computes \<open>0/0 = nan\<close> in every component: \<open>None\<close> is that row of nans.
\<close>

definition normalize_row :: "vec \<Rightarrow> vec option" where
  "normalize_row x = (if row_norm x = 0 then None else Some (vdiv x (row_norm x)))"

text \<open>\<open>(x * y).sum(axis=1)\<close> for one row; \<open>None\<close> is nan.\<close>

fun dot_row :: "vec option \<Rightarrow> vec option \<Rightarrow> real option" where
  "dot_row (Some (x0, x1, x2)) (Some (y0, y1, y2)) = Some (x0 * y0 + x1 * y1 + x2 * y2)"
| "dot_row _ _ = None"

text \<open>The comparisons \<open>d < 0\<close> and \<open>d > 0\<close>; both are false on nan.\<close>

fun lt0 :: "real option \<Rightarrow> bool" where
  "lt0 (Some d) = (d < 0)"
| "lt0 None = False"

fun gt0 :: "real option \<Rightarrow> bool" where
  "gt0 (Some d) = (d > 0)"
| "gt0 None = False"

text \<open>\<open>mask.nonzero()[0]\<close>: the positions of a boolean array that hold \<open>True\<close>.\<close>

definition nonzero :: "bool list \<Rightarrow> nat list" where
  "nonzero bs = filter (\<lambda>i. bs ! i) [0..<length bs]"

subsection \<open>The dot products\<close>

text \<open>
  Lines 230 to 257, after the gradient has been computed. \<open>map_coordinates\<close> is scipy's
  interpolation of one gradient component at one coordinate; it is applied to every
  centroid.
\<close>

definition dotproducts ::
  "('g \<Rightarrow> vec \<Rightarrow> real) \<Rightarrow> 'g \<times> 'g \<times> 'g \<Rightarrow> (vec \<times> vec \<times> vec) list \<Rightarrow> real option list" where
  "dotproducts map_coordinates grads actual_verts =
     (case grads of (grad_x, grad_y, grad_z) \<Rightarrow>
        let a = map (\<lambda>(v0, v1, v2). vsub v0 v1) actual_verts;
            b = map (\<lambda>(v0, v1, v2). vsub v0 v2) actual_verts;
            centroids = map (\<lambda>(v0, v1, v2). vdiv (vadd (vadd v0 v1) v2) 3) actual_verts;
            grad_centroids_x = map (map_coordinates grad_x) centroids;
            grad_centroids_y = map (map_coordinates grad_y) centroids;
            grad_centroids_z = map (map_coordinates grad_z) centroids;
            grad_centroids = map normalize_row
               (zip grad_centroids_x (zip grad_centroids_y grad_centroids_z));
            crosses = map normalize_row (map2 cross a b)
        in map2 dot_row grad_centroids crosses)"

subsection \<open>Flipping rows\<close>

fun reverse_row :: "face \<Rightarrow> face" where
  "reverse_row (i, j, k) = (k, j, i)"

text \<open>
  \<open>arr[indices] = rows\<close>: the rows are computed first, then written one by one.
\<close>

definition assign_rows :: "face list \<Rightarrow> nat list \<Rightarrow> face list \<Rightarrow> face list" where
  "assign_rows arr indices rows = fold (\<lambda>(i, r) acc. acc[i := r]) (zip indices rows) arr"

text \<open>
  Lines 271 to 274: \<open>faces.copy()\<close> allocates a new array holding the rows \<open>fs\<close>
  of \<open>faces\<close>, the reversed rows \<open>faces_corrected[indices, ::-1]\<close> are written
  into that new array, and the reference to it is returned.
\<close>

definition flip_rows :: "heap \<Rightarrow> face list \<Rightarrow> nat list \<Rightarrow> (error + ref) \<times> heap" where
  "flip_rows h fs indices =
     (case alloc h (IntArr fs) of (faces_corrected, h1) \<Rightarrow>
        let rows = map (\<lambda>i. reverse_row (fs ! i)) indices
        in (Inr faces_corrected, h1[faces_corrected := IntArr (assign_rows fs indices rows)]))"

subsection \<open>The function\<close>

text \<open>
  The mode is tested with Python's \<open>in\<close> on strings, which is containment of a contiguous
  substring. \<open>np_gradient\<close> and \<open>map_coordinates\<close> are numpy's and scipy's; the first may
  raise. \<open>verts[faces]\<close> raises \<open>IndexError\<close> when \<open>faces\<close> is an array of floats or
  holds an index out of range. The result is the outcome and the store after the call.
\<close>

definition correct_mesh_orientation ::
  "('vol \<Rightarrow> spacing \<Rightarrow> error + 'g \<times> 'g \<times> 'g) \<Rightarrow> ('g \<Rightarrow> vec \<Rightarrow> real) \<Rightarrow>
   'vol \<Rightarrow> ref \<Rightarrow> ref \<Rightarrow> spacing \<Rightarrow> string \<Rightarrow> heap \<Rightarrow> (error + ref) \<times> heap" where
  "correct_mesh_orientation np_gradient map_coordinates volume verts faces spacing
       gradient_direction h =
     (case np_gradient volume spacing of
        Inl e \<Rightarrow> (Inl e, h)
      | Inr grads \<Rightarrow>
         (case h ! faces of
            FloatArr _ \<Rightarrow> (Inl IndexError, h)
          | IntArr fs \<Rightarrow>
             (case fancy_index (as_verts (h ! verts)) fs of
                Inl e \<Rightarrow> (Inl e, h)
              | Inr actual_verts \<Rightarrow>
                  let dots = dotproducts map_coordinates grads actual_verts in
                  if sublist ''descent'' gradient_direction then
                    flip_rows h fs (nonzero (map lt0 dots))
                  else if sublist ''ascent'' gradient_direction then
                    flip_rows h fs (nonzero (map gt0 dots))
                  else
                    (Inl (ValueError (''Incorrect input '' @ gradient_direction
                            @ '' in `gradient_direction`, see docstring.'')), h))))"

subsection \<open>The orientation test, face by face\<close>

text \<open>
  The dot product of one face as the specification words it: the normalised gradient
  interpolated at the centroid of the face, times the normalised geometric normal, which
  is the cross product of \<open>v0 - v1\<close> and \<open>v0 - v2\<close>. \<open>None\<close> is nan.
\<close>

definition face_dot ::
  "('g \<Rightarrow> vec \<Rightarrow> real) \<Rightarrow> 'g \<times> 'g \<times> 'g \<Rightarrow> vec list \<Rightarrow> face \<Rightarrow> real option" where
  "face_dot map_coordinates grads verts f =
     (case grads of (grad_x, grad_y, grad_z) \<Rightarrow>
       (case f of (i, j, k) \<Rightarrow>
          let v0 = getrow verts i; v1 = getrow verts j; v2 = getrow verts k;
              centroid = vdiv (vadd (vadd v0 v1) v2) 3;
              gradient = (map_coordinates grad_x centroid, map_coordinates grad_y centroid,
                          map_coordinates grad_z centroid);
              normal = cross (vsub v0 v1) (vsub v0 v2)
          in dot_row (normalize_row gradient) (normalize_row normal)))"

text \<open>
  The face list in which exactly the faces marked by \<open>misoriented\<close> are reversed and
  every other face is kept.
\<close>

definition flipped_faces ::
  "(real option \<Rightarrow> bool) \<Rightarrow> ('g \<Rightarrow> vec \<Rightarrow> real) \<Rightarrow> 'g \<times> 'g \<times> 'g \<Rightarrow> vec list \<Rightarrow>
   face list \<Rightarrow> face list" where
  "flipped_faces misoriented map_coordinates grads verts faces =
     map (\<lambda>f. if misoriented (face_dot map_coordinates grads verts f)
              then reverse_row f else f) faces"

subsection \<open>A small instance\<close>

text \<open>
  A field whose gradient is the same vector everywhere: the volume is given by that
  vector, each gradient component is a number, and sampling it anywhere returns it.
\<close>

definition constant_gradient :: "vec \<Rightarrow> spacing \<Rightarrow> error + real \<times> real \<times> real" where
  "constant_gradient g sp = Inr g"

definition sample_constant :: "real \<Rightarrow> vec \<Rightarrow> real" where
  "sample_constant c x = c"

text \<open>
  One triangle in the plane \<open>z = 0\<close>, listed once with each winding, and the same mesh
  with an index that is no position of the vertex array.
\<close>

definition triangle_heap :: heap where
  "triangle_heap = [FloatArr [(0, 0, 0), (1, 0, 0), (0, 1, 0)], IntArr [(0, 1, 2), (0, 2, 1)]]"

definition broken_heap :: heap where
  "broken_heap = [FloatArr [(0, 0, 0), (1, 0, 0), (0, 1, 0)], IntArr [(0, 1, 7)]]"

section \<open>\<open>correct_mesh_orientation\<close> in binary64\<close>

subsection \<open>Binary64 numbers\<close>



















subsection \<open>Rows of binary64 numbers\<close>









subsection \<open>The function\<close>






subsection \<open>Two small instances\<close>





section \<open>\<open>marching_cubes\<close>\<close>

text \<open>A numpy array of floats of any dimension: its shape and its entries in C order.\<close>

record volume =
  shape :: "nat list"
  data :: "real list"

definition ndim :: "volume \<Rightarrow> nat" where
  "ndim v = length (shape v)"

text \<open>\<open>volume.min()\<close> and \<open>volume.max()\<close>; numpy refuses to reduce an empty array.\<close>

fun amin :: "real list \<Rightarrow> error + real" where
  "amin [] = Inl (ValueError
       ''zero-size array to reduction operation minimum which has no identity'')"
| "amin (x # xs) = Inr (fold min xs x)"

fun amax :: "real list \<Rightarrow> error + real" where
  "amax [] = Inl (ValueError
       ''zero-size array to reduction operation maximum which has no identity'')"
| "amax (x # xs) = Inr (fold max xs x)"

text \<open>A raw triangle: three coordinates, as \<open>iterate_and_store_3d\<close> emits them.\<close>

type_synonym raw_face = "vec \<times> vec \<times> vec"

text \<open>
  \<open>_marching_cubes_cy.unpack_unique_verts\<close>, the Cython vertex welding, is not among
  the sources; the four definitions below follow section 4.4 of the specification. The
  state of the welding is the mapping from coordinate to index and the vertices found so
  far, in order.
\<close>

type_synonym welder = "(vec \<rightharpoonup> nat) \<times> vec list"

text \<open>
  Modelled from the spec: one step of \<open>unpack_unique_verts\<close> (missing Cython). A
  coordinate is looked up by its exact value; one not seen before is inserted and gets
  the next index, in first-seen order.
\<close>

fun weld_vertex :: "welder \<Rightarrow> vec \<Rightarrow> welder \<times> nat" where
  "weld_vertex (index_of, vs) v =
     (case index_of v of
        Some i \<Rightarrow> ((index_of, vs), i)
      | None \<Rightarrow> ((index_of(v \<mapsto> length vs), vs @ [v]), length vs))"

text \<open>
  Modelled from the spec: the body of the loop of \<open>unpack_unique_verts\<close> (missing
  Cython). The 3 coordinates of a raw triangle are mapped to indices, in order, and the
  index triple is the face.
\<close>

fun weld_triangle :: "welder \<Rightarrow> raw_face \<Rightarrow> welder \<times> face" where
  "weld_triangle w (p, q, r) =
     (case weld_vertex w p of (w1, i) \<Rightarrow>
       (case weld_vertex w1 q of (w2, j) \<Rightarrow>
         (case weld_vertex w2 r of (w3, k) \<Rightarrow> (w3, (int i, int j, int k)))))"

text \<open>
  Modelled from the spec: the loop of \<open>unpack_unique_verts\<close> (missing Cython), a
  scan of the raw stream that emits one face for each raw triangle.
\<close>

fun weld_all :: "welder \<Rightarrow> raw_face list \<Rightarrow> welder \<times> face list" where
  "weld_all w [] = (w, [])"
| "weld_all w (t # ts) =
     (case weld_triangle w t of (w1, f) \<Rightarrow>
       (case weld_all w1 ts of (w2, fs) \<Rightarrow> (w2, f # fs)))"

text \<open>
  Modelled from the spec: \<open>_marching_cubes_cy.unpack_unique_verts\<close>, which is not
  among the sources. Section 4.4: a mapping from exact coordinate value to an assigned
  integer index is maintained, indices are assigned in first-seen order while the raw
  stream is scanned, and each raw triangle has its 3 coordinates mapped to indices (new
  entries inserted as needed) and is emitted as one face. The output is the vertices and
  the faces.
\<close>

definition unpack_unique_verts :: "raw_face list \<Rightarrow> vec list \<times> face list" where
  "unpack_unique_verts raw_faces =
     (case weld_all (Map.empty, []) raw_faces of ((index_of, vs), fs) \<Rightarrow> (vs, fs))"

text \<open>
  \<open>iterate_and_store_3d\<close>, the Cython traversal of the cells, is a parameter; it may
  raise. The two checks come first, \<open>or\<close> evaluating its right operand only when the left
  one is false.
\<close>

definition marching_cubes ::
  "(volume \<Rightarrow> real \<Rightarrow> spacing \<Rightarrow> error + raw_face list) \<Rightarrow>
   volume \<Rightarrow> real \<Rightarrow> spacing \<Rightarrow> error + vec list \<times> face list" where
  "marching_cubes iterate_and_store_3d volume level spacing =
     (if ndim volume \<noteq> 3 then Inl (ValueError ''Input volume must have 3 dimensions.'')
      else
       (case amin (data volume) of
          Inl e \<Rightarrow> Inl e
        | Inr lo \<Rightarrow>
           (if level < lo
            then Inl (ValueError ''Contour level must be within volume data range.'')
            else
             (case amax (data volume) of
                Inl e \<Rightarrow> Inl e
              | Inr hi \<Rightarrow>
                 (if level > hi
                  then Inl (ValueError ''Contour level must be within volume data range.'')
                  else
                   (case iterate_and_store_3d volume level spacing of
                      Inl e \<Rightarrow> Inl e
                    | Inr raw_faces \<Rightarrow> Inr (unpack_unique_verts raw_faces)))))))"

text \<open>
  Two traversals to run the checks against: one that emits two triangles sharing an edge,
  as a \<open>2 \<times> 2 \<times> 2\<close> volume with one high corner may, and one that raises.
\<close>

definition two_triangles :: "volume \<Rightarrow> real \<Rightarrow> spacing \<Rightarrow> error + raw_face list" where
  "two_triangles v level sp =
     Inr [((1 / 2, 1, 1), (1, 1 / 2, 1), (1, 1, 1 / 2)),
          ((1, 1 / 2, 1), (1 / 2, 1, 1), (1, 1, 0))]"

definition failing_traversal :: "volume \<Rightarrow> real \<Rightarrow> spacing \<Rightarrow> error + raw_face list" where
  "failing_traversal v level sp = Inl IndexError"

definition corner_volume :: volume where
  "corner_volume = \<lparr>shape = [2, 2, 2], data = [0, 0, 0, 0, 0, 0, 0, 1]\<rparr>"

definition flat_volume :: volume where
  "flat_volume = \<lparr>shape = [2, 2], data = [0, 0, 0, 1]\<rparr>"

subsection \<open>The mesh invariant\<close>

text \<open>A face whose three indices are positions of a vertex array of \<open>n\<close> rows.\<close>

definition face_valid :: "nat \<Rightarrow> face \<Rightarrow> bool" where
  "face_valid n f =
     (case f of (i, j, k) \<Rightarrow> 0 \<le> i \<and> i < int n \<and> 0 \<le> j \<and> j < int n \<and> 0 \<le> k \<and> k < int n)"

text \<open>
  What the welding keeps true: the vertices seen so far are pairwise different, and the
  mapping sends a coordinate to an index exactly when that index holds the coordinate.
\<close>

definition welder_inv :: "welder \<Rightarrow> bool" where
  "welder_inv w =
     (case w of (index_of, vs) \<Rightarrow>
        distinct vs \<and> (\<forall>v i. index_of v = Some i \<longleftrightarrow> i < length vs \<and> vs ! i = v))"

section \<open>Properties of \<open>mesh_surface_area\<close>\<close>

lemma row_norm_nonneg: "0 \<le> row_norm x"
  by (cases x) (simp add: row_norm_def)

lemma sum_list_row_norm_nonneg: "0 \<le> sum_list (map row_norm xs)"
  by (induction xs) (simp_all add: row_norm_nonneg)

lemma surface_sum_rows:
  "sum_list (map row_norm (map2 cross
       (map (\<lambda>(v0, v1, v2). vsub v0 v1)
          (map (\<lambda>(i, j, k). (getrow verts i, getrow verts j, getrow verts k)) faces))
       (map (\<lambda>(v0, v1, v2). vsub v0 v2)
          (map (\<lambda>(i, j, k). (getrow verts i, getrow verts j, getrow verts k)) faces)))) / 2
   = sum_list (map (face_area verts) faces)"
  by (induction faces) (auto simp: add_divide_distrib face_area_def row_norm_def Let_def)

text \<open>
  C4. On a mesh whose face indices are positions of the vertex array,
  \<open>mesh_surface_area\<close> returns the sum over the faces of half the norm of the cross
  product of \<open>v0 - v1\<close> and \<open>v0 - v2\<close>. A face with a repeated vertex goes through the
  same formula and contributes 0.
\<close>

theorem mesh_surface_area_sum:
  assumes "list_all (face_in_bounds (length verts)) faces"
  shows "mesh_surface_area verts faces = Inr (sum_list (map (face_area verts) faces))
         \<and> (\<forall>f \<in> set faces. repeated_vertex verts f \<longrightarrow> face_area verts f = 0)"
proof
  from assms show "mesh_surface_area verts faces = Inr (sum_list (map (face_area verts) faces))"
    by (simp add: mesh_surface_area_def fancy_index_def Let_def surface_sum_rows
          del: map_map)
next
  show "\<forall>f \<in> set faces. repeated_vertex verts f \<longrightarrow> face_area verts f = 0"
  proof (intro ballI impI)
    fix f assume deg: "repeated_vertex verts f"
    obtain i j k where f: "f = (i, j, k)" by (cases f)
    obtain p0 p1 p2 where p: "getrow verts i = (p0, p1, p2)" by (cases "getrow verts i")
    obtain q0 q1 q2 where q: "getrow verts j = (q0, q1, q2)" by (cases "getrow verts j")
    obtain r0 r1 r2 where r: "getrow verts k = (r0, r1, r2)" by (cases "getrow verts k")
    from deg show "face_area verts f = 0"
      by (auto simp: repeated_vertex_def face_area_def Let_def f p q r)
  qed
qed

theorem mesh_surface_area_sum_witness:
  "list_all (face_in_bounds (length [(0, 0, 0), (1, 0, 0), (0, 1, 0 :: real)]))
      [(0, 1, - 1), (0, 0, 1)]
   \<and> mesh_surface_area [(0, 0, 0), (1, 0, 0), (0, 1, 0)] [(0, 1, - 1), (0, 0, 1)]
       = Inr (1 / 2)
   \<and> repeated_vertex [(0, 0, 0), (1, 0, 0), (0, 1, 0)] (0, 0, 1)
   \<and> face_area [(0, 0, 0), (1, 0, 0), (0, 1, 0)] (0, 0, 1) = 0"
  using mesh_surface_area_sum
          [of "[(0, 0, 0), (1, 0, 0), (0, 1, 0)]" "[(0, 1, - 1), (0, 0, 1)]"]
  by (simp add: face_in_bounds_def in_bounds_def face_area_def getrow_def wrap_index_def
        repeated_vertex_def Let_def)

text \<open>
  C5. Whatever \<open>mesh_surface_area\<close> returns is not negative, and on a mesh without
  faces it returns exactly 0.
\<close>

theorem mesh_surface_area_nonneg:
  "(mesh_surface_area verts faces = Inr area \<longrightarrow> 0 \<le> area)
   \<and> mesh_surface_area verts [] = Inr 0"
proof
  show "mesh_surface_area verts faces = Inr area \<longrightarrow> 0 \<le> area"
  proof
    assume ret: "mesh_surface_area verts faces = Inr area"
    then obtain rows :: "vec list" where "sum_list (map row_norm rows) = area * 2"
      by (auto simp: mesh_surface_area_def Let_def simp del: map_map split: sum.splits)
    then show "0 \<le> area"
      using sum_list_row_norm_nonneg [of rows] by simp
  qed
next
  show "mesh_surface_area verts [] = Inr 0"
    by (simp add: mesh_surface_area_def fancy_index_def)
qed

theorem mesh_surface_area_nonneg_witness:
  "mesh_surface_area [(0, 0, 0), (1, 0, 0), (0, 1, 0)] [(0, 1, 2)] = Inr (1 / 2)
   \<and> (0 :: real) \<le> 1 / 2
   \<and> mesh_surface_area [(0, 0, 0), (1, 0, 0), (0, 1, 0)] [] = Inr 0"
proof -
  have run: "mesh_surface_area [(0, 0, 0), (1, 0, 0), (0, 1, 0)] [(0, 1, 2)] = Inr (1 / 2)"
    by (simp add: mesh_surface_area_def fancy_index_def face_in_bounds_def in_bounds_def
          getrow_def wrap_index_def row_norm_def Let_def)
  with mesh_surface_area_nonneg
         [of "[(0, 0, 0), (1, 0, 0), (0, 1, 0)]" "[(0, 1, 2)]" "1 / 2"]
  show ?thesis by simp
qed

section \<open>Properties of \<open>correct_mesh_orientation\<close>\<close>

lemma dotproducts_rows:
  "dotproducts mc grads
      (map (\<lambda>(i, j, k). (getrow verts i, getrow verts j, getrow verts k)) faces)
   = map (face_dot mc grads verts) faces"
  by (induction faces) (auto simp: dotproducts_def face_dot_def Let_def split: prod.splits)

lemma length_assign_rows: "length (assign_rows arr idx rows) = length arr"
proof -
  have "length (fold (\<lambda>(i, r) acc. acc[i := r]) ps arr) = length arr" for ps
    by (induction ps arbitrary: arr) (auto split: prod.splits)
  then show ?thesis by (simp add: assign_rows_def)
qed

lemma nth_assign_rows:
  "n < length arr \<Longrightarrow>
   assign_rows arr idx (map g idx) ! n = (if n \<in> set idx then g n else arr ! n)"
  unfolding assign_rows_def
proof (induction idx arbitrary: arr)
  case Nil
  then show ?case by simp
next
  case (Cons i idx)
  from Cons.prems Cons.IH [of "arr[i := g i]"] show ?case
    by (auto simp: nth_list_update)
qed

lemma set_nonzero: "set (nonzero bs) = {i. i < length bs \<and> bs ! i}"
  by (auto simp: nonzero_def)

lemma flip_rows_map:
  assumes "length ds = length fs"
  shows "flip_rows h fs (nonzero (map P ds))
         = (Inr (length h),
            h @ [IntArr (map (\<lambda>(f, d). if P d then reverse_row f else f) (zip fs ds))])"
proof -
  have "assign_rows fs (nonzero (map P ds)) (map (\<lambda>i. reverse_row (fs ! i)) (nonzero (map P ds)))
        = map (\<lambda>(f, d). if P d then reverse_row f else f) (zip fs ds)"
    using assms
    by (intro nth_equalityI) (auto simp: length_assign_rows nth_assign_rows set_nonzero)
  then show ?thesis
    by (simp add: flip_rows_def alloc_def)
qed

lemma flip_rows_face_dot:
  "flip_rows h fs (nonzero (map P (map (face_dot mc grads verts) fs)))
   = (Inr (length h), h @ [IntArr (flipped_faces P mc grads verts fs)])"
proof -
  have "map (\<lambda>(f, d). if P d then reverse_row f else f) (zip fs (map (face_dot mc grads verts) fs))
        = flipped_faces P mc grads verts fs"
    by (induction fs) (simp_all add: flipped_faces_def)
  then show ?thesis
    using flip_rows_map [of "map (face_dot mc grads verts) fs" fs h P] by simp
qed

lemma correct_mesh_orientation_descent:
  assumes "np_gradient vol sp = Inr grads" and "h ! fp = IntArr fs"
    and "list_all (face_in_bounds (length (as_verts (h ! vp)))) fs"
    and "sublist ''descent'' mode"
  shows "correct_mesh_orientation np_gradient mc vol vp fp sp mode h
         = (Inr (length h), h @ [IntArr (flipped_faces lt0 mc grads (as_verts (h ! vp)) fs)])"
  using assms
  by (simp add: correct_mesh_orientation_def fancy_index_def dotproducts_rows
        flip_rows_face_dot Let_def del: map_map)

lemma correct_mesh_orientation_ascent:
  assumes "np_gradient vol sp = Inr grads" and "h ! fp = IntArr fs"
    and "list_all (face_in_bounds (length (as_verts (h ! vp)))) fs"
    and "\<not> sublist ''descent'' mode" and "sublist ''ascent'' mode"
  shows "correct_mesh_orientation np_gradient mc vol vp fp sp mode h
         = (Inr (length h), h @ [IntArr (flipped_faces gt0 mc grads (as_verts (h ! vp)) fs)])"
  using assms
  by (simp add: correct_mesh_orientation_def fancy_index_def dotproducts_rows
        flip_rows_face_dot Let_def del: map_map)

lemma mode_literals:
  "sublist ''descent'' ''descent''" "\<not> sublist ''descent'' ''ascent''"
  "sublist ''ascent'' ''ascent''"
  by code_simp+



lemma correct_mesh_orientation_rejects:
  assumes "\<not> sublist ''descent'' mode" and "\<not> sublist ''ascent'' mode"
  shows "correct_mesh_orientation np_gradient map_coordinates volume verts faces spacing mode h
         = (Inl (case np_gradient volume spacing of
                   Inl e \<Rightarrow> e
                 | Inr grads \<Rightarrow>
                    (case h ! faces of
                       FloatArr xs \<Rightarrow> IndexError
                     | IntArr fs \<Rightarrow>
                        if list_all (face_in_bounds (length (as_verts (h ! verts)))) fs
                        then ValueError (''Incorrect input '' @ mode
                               @ '' in `gradient_direction`, see docstring.'')
                        else IndexError)), h)"
  using assms
  by (simp add: correct_mesh_orientation_def fancy_index_def Let_def
        split: sum.splits ndarray.splits)

lemma correct_mesh_orientation_cases:
  assumes run: "correct_mesh_orientation np_gradient mc volume verts faces spacing mode h
                = (res, h')"
  obtains (failed) e where "res = Inl e" and "h' = h"
  | (flipped) grads fs P where "np_gradient volume spacing = Inr grads"
      and "h ! faces = IntArr fs"
      and "list_all (face_in_bounds (length (as_verts (h ! verts)))) fs"
      and "res = Inr (length h)"
      and "h' = h @ [IntArr (flipped_faces P mc grads (as_verts (h ! verts)) fs)]"
proof (cases "np_gradient volume spacing")
  case (Inl e)
  with run have "res = Inl e" "h' = h"
    by (simp_all add: correct_mesh_orientation_def)
  then show ?thesis by (rule failed)
next
  case grads: (Inr grads)
  show ?thesis
  proof (cases "h ! faces")
    case (FloatArr xs)
    with run grads have "res = Inl IndexError" "h' = h"
      by (simp_all add: correct_mesh_orientation_def)
    then show ?thesis by (rule failed)
  next
    case fs: (IntArr fs)
    show ?thesis
    proof (cases "list_all (face_in_bounds (length (as_verts (h ! verts)))) fs")
      case False
      with run grads fs have "res = Inl IndexError" "h' = h"
        by (simp_all add: correct_mesh_orientation_def fancy_index_def)
      then show ?thesis by (rule failed)
    next
      case bounds: True
      show ?thesis
      proof (cases "sublist ''descent'' mode")
        case True
        have "correct_mesh_orientation np_gradient mc volume verts faces spacing mode h
              = (Inr (length h),
                 h @ [IntArr (flipped_faces lt0 mc grads (as_verts (h ! verts)) fs)])"
          using grads fs bounds True by (rule correct_mesh_orientation_descent)
        with run have "res = Inr (length h)"
          "h' = h @ [IntArr (flipped_faces lt0 mc grads (as_verts (h ! verts)) fs)]"
          by simp_all
        with grads fs bounds show ?thesis by (rule flipped)
      next
        case nd: False
        show ?thesis
        proof (cases "sublist ''ascent'' mode")
          case True
          have "correct_mesh_orientation np_gradient mc volume verts faces spacing mode h
                = (Inr (length h),
                   h @ [IntArr (flipped_faces gt0 mc grads (as_verts (h ! verts)) fs)])"
            using grads fs bounds nd True by (rule correct_mesh_orientation_ascent)
          with run have "res = Inr (length h)"
            "h' = h @ [IntArr (flipped_faces gt0 mc grads (as_verts (h ! verts)) fs)]"
            by simp_all
          with grads fs bounds show ?thesis by (rule flipped)
        next
          case False
          from run correct_mesh_orientation_rejects [OF nd False, of np_gradient mc volume verts faces spacing h]
          have "\<exists>e. res = Inl e" and same: "h' = h" by auto
          then obtain e where "res = Inl e" by blast
          then show ?thesis using same by (rule failed)
        qed
      qed
    qed
  qed
qed

lemma flipped_faces_entries:
  "length (flipped_faces P mc grads vs fs) = length fs
   \<and> (\<forall>n < length fs. flipped_faces P mc grads vs fs ! n = fs ! n
         \<or> flipped_faces P mc grads vs fs ! n = reverse_row (fs ! n))"
  by (simp add: flipped_faces_def)



text \<open>
  C6. Whatever the call does, every array that was in the store before it, the vertices
  and the faces it reads among them, is the same afterwards. When the call returns, the
  result is a new array, of the length of the input faces, whose entries are each the
  input triple or that triple reversed.
\<close>

theorem correct_mesh_orientation_frame:
  assumes "correct_mesh_orientation np_gradient map_coordinates volume verts faces spacing
             gradient_direction h = (res, h')"
  shows "(\<forall>p < length h. h' ! p = h ! p)
       \<and> (\<forall>r. res = Inr r \<longrightarrow>
            r = length h \<and> length h' = Suc (length h)
            \<and> (\<exists>fs out. h ! faces = IntArr fs \<and> h' ! r = IntArr out
                 \<and> length out = length fs
                 \<and> (\<forall>n < length fs. out ! n = fs ! n \<or> out ! n = reverse_row (fs ! n))))"
  using assms
proof (cases rule: correct_mesh_orientation_cases)
  case (failed e)
  then show ?thesis by simp
next
  case (flipped grads fs P)
  then show ?thesis
    using flipped_faces_entries [of P map_coordinates grads "as_verts (h ! verts)" fs]
    by (simp add: nth_append)
qed

theorem correct_mesh_orientation_frame_witness:
  "correct_mesh_orientation constant_gradient sample_constant (0, 0, 1) 0 1 (1, 1, 1)
      ''descent'' triangle_heap
    = (Inr 2, triangle_heap @ [IntArr [(0, 1, 2), (1, 2, 0)]])
   \<and> (triangle_heap @ [IntArr [(0, 1, 2), (1, 2, 0)]]) ! 0 = triangle_heap ! 0
   \<and> (triangle_heap @ [IntArr [(0, 1, 2), (1, 2, 0)]]) ! 1 = triangle_heap ! 1
   \<and> (2 :: nat) = length triangle_heap"
proof -
  have run: "correct_mesh_orientation constant_gradient sample_constant (0, 0, 1) 0 1 (1, 1, 1)
      ''descent'' triangle_heap
    = (Inr 2, triangle_heap @ [IntArr [(0, 1, 2), (1, 2, 0)]])"
    by (simp add: correct_mesh_orientation_def constant_gradient_def sample_constant_def
          triangle_heap_def fancy_index_def face_in_bounds_def in_bounds_def getrow_def
          wrap_index_def dotproducts_def normalize_row_def row_norm_def flip_rows_def
          alloc_def assign_rows_def nonzero_def sublist_code(3) Let_def)
  from correct_mesh_orientation_frame [OF run] run show ?thesis
    by (simp add: triangle_heap_def)
qed

subsection \<open>The round trip in binary64\<close>












text \<open>
  C10. The mode is tested by substring containment. A mode that contains \<open>descent\<close>
  is treated as \<open>descent\<close>; a mode that contains \<open>ascent\<close> and not \<open>descent\<close> is
  treated as \<open>ascent\<close>; in both cases the call is accepted, that is, it returns whenever
  the gradient is computed and the face indices are in range.
\<close>

theorem mode_is_substring_test:
  "(sublist ''descent'' mode \<longrightarrow>
      correct_mesh_orientation np_gradient map_coordinates volume verts faces spacing mode h
      = correct_mesh_orientation np_gradient map_coordinates volume verts faces spacing
          ''descent'' h)
   \<and> (sublist ''ascent'' mode \<and> \<not> sublist ''descent'' mode \<longrightarrow>
      correct_mesh_orientation np_gradient map_coordinates volume verts faces spacing mode h
      = correct_mesh_orientation np_gradient map_coordinates volume verts faces spacing
          ''ascent'' h)
   \<and> ((sublist ''descent'' mode \<or> sublist ''ascent'' mode)
        \<and> np_gradient volume spacing = Inr grads \<and> h ! faces = IntArr fs
        \<and> list_all (face_in_bounds (length (as_verts (h ! verts)))) fs \<longrightarrow>
      (\<exists>r h'. correct_mesh_orientation np_gradient map_coordinates volume verts faces spacing
          mode h = (Inr r, h')))"
proof (intro conjI impI)
  assume "sublist ''descent'' mode"
  then show "correct_mesh_orientation np_gradient map_coordinates volume verts faces spacing mode h
      = correct_mesh_orientation np_gradient map_coordinates volume verts faces spacing
          ''descent'' h"
    by (simp add: correct_mesh_orientation_def mode_literals Let_def
          split: sum.splits ndarray.splits)
next
  assume "sublist ''ascent'' mode \<and> \<not> sublist ''descent'' mode"
  then show "correct_mesh_orientation np_gradient map_coordinates volume verts faces spacing mode h
      = correct_mesh_orientation np_gradient map_coordinates volume verts faces spacing
          ''ascent'' h"
    by (simp add: correct_mesh_orientation_def mode_literals Let_def
          split: sum.splits ndarray.splits)
next
  assume a: "(sublist ''descent'' mode \<or> sublist ''ascent'' mode)
        \<and> np_gradient volume spacing = Inr grads \<and> h ! faces = IntArr fs
        \<and> list_all (face_in_bounds (length (as_verts (h ! verts)))) fs"
  then have grad: "np_gradient volume spacing = Inr grads" and fs: "h ! faces = IntArr fs"
    and bounds: "list_all (face_in_bounds (length (as_verts (h ! verts)))) fs"
    by simp_all
  show "\<exists>r h'. correct_mesh_orientation np_gradient map_coordinates volume verts faces spacing
          mode h = (Inr r, h')"
  proof (cases "sublist ''descent'' mode")
    case True
    have "correct_mesh_orientation np_gradient map_coordinates volume verts faces spacing mode h
          = (Inr (length h),
             h @ [IntArr (flipped_faces lt0 map_coordinates grads (as_verts (h ! verts)) fs)])"
      using grad fs bounds True by (rule correct_mesh_orientation_descent)
    then show ?thesis by blast
  next
    case False
    with a have asc: "sublist ''ascent'' mode" by simp
    have "correct_mesh_orientation np_gradient map_coordinates volume verts faces spacing mode h
          = (Inr (length h),
             h @ [IntArr (flipped_faces gt0 map_coordinates grads (as_verts (h ! verts)) fs)])"
      using grad fs bounds False asc by (rule correct_mesh_orientation_ascent)
    then show ?thesis by blast
  qed
qed

theorem mode_is_substring_test_witness:
  "sublist ''descent'' ''gradient descent''
   \<and> correct_mesh_orientation constant_gradient sample_constant (0, 0, 1) 0 1 (1, 1, 1)
        ''gradient descent'' triangle_heap
     = correct_mesh_orientation constant_gradient sample_constant (0, 0, 1) 0 1 (1, 1, 1)
        ''descent'' triangle_heap
   \<and> sublist ''ascent'' ''ascents'' \<and> \<not> sublist ''descent'' ''ascents''
   \<and> correct_mesh_orientation constant_gradient sample_constant (0, 0, 1) 0 1 (1, 1, 1)
        ''ascents'' triangle_heap
     = correct_mesh_orientation constant_gradient sample_constant (0, 0, 1) 0 1 (1, 1, 1)
        ''ascent'' triangle_heap
   \<and> sublist ''descent'' ''nondescent''
   \<and> constant_gradient (0, 0, 1) (1, 1, 1) = Inr (0, 0, 1)
   \<and> triangle_heap ! 1 = IntArr [(0, 1, 2), (0, 2, 1)]
   \<and> list_all (face_in_bounds (length (as_verts (triangle_heap ! 0)))) [(0, 1, 2), (0, 2, 1)]
   \<and> (\<exists>r h'. correct_mesh_orientation constant_gradient sample_constant (0, 0, 1) 0 1
          (1, 1, 1) ''nondescent'' triangle_heap = (Inr r, h'))"
proof -
  have d1: "sublist ''descent'' ''gradient descent''" by code_simp
  have d2: "sublist ''ascent'' ''ascents''" by code_simp
  have d3: "\<not> sublist ''descent'' ''ascents''" by code_simp
  have d4: "sublist ''descent'' ''nondescent''" by code_simp
  have grad: "constant_gradient (0, 0, 1) (1, 1, 1) = Inr (0, 0, 1)"
    by (simp add: constant_gradient_def)
  have fs: "triangle_heap ! 1 = IntArr [(0, 1, 2), (0, 2, 1)]"
    by (simp add: triangle_heap_def)
  have bounds: "list_all (face_in_bounds (length (as_verts (triangle_heap ! 0))))
                  [(0, 1, 2), (0, 2, 1)]"
    by (simp add: triangle_heap_def face_in_bounds_def in_bounds_def)
  from d1 mode_is_substring_test
         [of "''gradient descent''" constant_gradient sample_constant "(0, 0, 1)" 0 1
             "(1, 1, 1)" triangle_heap]
  have w1: "correct_mesh_orientation constant_gradient sample_constant (0, 0, 1) 0 1 (1, 1, 1)
        ''gradient descent'' triangle_heap
     = correct_mesh_orientation constant_gradient sample_constant (0, 0, 1) 0 1 (1, 1, 1)
        ''descent'' triangle_heap"
    by blast
  from d2 d3 mode_is_substring_test
         [of "''ascents''" constant_gradient sample_constant "(0, 0, 1)" 0 1
             "(1, 1, 1)" triangle_heap]
  have w2: "correct_mesh_orientation constant_gradient sample_constant (0, 0, 1) 0 1 (1, 1, 1)
        ''ascents'' triangle_heap
     = correct_mesh_orientation constant_gradient sample_constant (0, 0, 1) 0 1 (1, 1, 1)
        ''ascent'' triangle_heap"
    by blast
  from d4 grad fs bounds mode_is_substring_test
         [of "''nondescent''" constant_gradient sample_constant "(0, 0, 1)" 0 1
             "(1, 1, 1)" triangle_heap "(0, 0, 1)" "[(0, 1, 2), (0, 2, 1)]"]
  have w3: "\<exists>r h'. correct_mesh_orientation constant_gradient sample_constant (0, 0, 1) 0 1
          (1, 1, 1) ''nondescent'' triangle_heap = (Inr r, h')"
    by blast
  from d1 d2 d3 d4 grad fs bounds w1 w2 w3 show ?thesis by blast
qed

text \<open>
  C2, as the code has it. A mode that contains neither \<open>descent\<close> nor \<open>ascent\<close> is
  rejected and the store is left as it was. The test comes after the gradient computation
  and the vertex lookup: their failures are raised first, and the mode's \<open>ValueError\<close> is
  raised when both succeed.
\<close>

theorem invalid_mode_rejected:
  assumes "\<not> sublist ''descent'' mode" and "\<not> sublist ''ascent'' mode"
  shows "\<exists>e. correct_mesh_orientation np_gradient map_coordinates volume verts faces spacing
              mode h = (Inl e, h)
           \<and> (np_gradient volume spacing = Inr grads \<and> h ! faces = IntArr fs
                \<and> list_all (face_in_bounds (length (as_verts (h ! verts)))) fs \<longrightarrow>
              e = ValueError (''Incorrect input '' @ mode
                     @ '' in `gradient_direction`, see docstring.''))
           \<and> (np_gradient volume spacing = Inr grads \<and> h ! faces = IntArr fs
                \<and> \<not> list_all (face_in_bounds (length (as_verts (h ! verts)))) fs \<longrightarrow>
              e = IndexError)
           \<and> (\<forall>e'. np_gradient volume spacing = Inl e' \<longrightarrow> e = e')"
  using assms
  by (auto simp: correct_mesh_orientation_def fancy_index_def Let_def
        split: sum.splits ndarray.splits)

theorem invalid_mode_rejected_witness:
  "\<not> sublist ''descent'' ''sideways'' \<and> \<not> sublist ''ascent'' ''sideways''
   \<and> constant_gradient (0, 0, 1) (1, 1, 1) = Inr (0, 0, 1)
   \<and> triangle_heap ! 1 = IntArr [(0, 1, 2), (0, 2, 1)]
   \<and> list_all (face_in_bounds (length (as_verts (triangle_heap ! 0)))) [(0, 1, 2), (0, 2, 1)]
   \<and> correct_mesh_orientation constant_gradient sample_constant (0, 0, 1) 0 1 (1, 1, 1)
        ''sideways'' triangle_heap
     = (Inl (ValueError ''Incorrect input sideways in `gradient_direction`, see docstring.''),
        triangle_heap)"
proof -
  have d1: "\<not> sublist ''descent'' ''sideways''" by code_simp
  have d2: "\<not> sublist ''ascent'' ''sideways''" by code_simp
  have grad: "constant_gradient (0, 0, 1) (1, 1, 1) = Inr (0, 0, 1)"
    by (simp add: constant_gradient_def)
  have fs: "triangle_heap ! 1 = IntArr [(0, 1, 2), (0, 2, 1)]"
    by (simp add: triangle_heap_def)
  have bounds: "list_all (face_in_bounds (length (as_verts (triangle_heap ! 0))))
                  [(0, 1, 2), (0, 2, 1)]"
    by (simp add: triangle_heap_def face_in_bounds_def in_bounds_def)
  from invalid_mode_rejected
         [OF d1 d2, of constant_gradient sample_constant "(0, 0, 1)" 0 1 "(1, 1, 1)"
            triangle_heap "(0, 0, 1)" "[(0, 1, 2), (0, 2, 1)]"]
    grad fs bounds
  have "correct_mesh_orientation constant_gradient sample_constant (0, 0, 1) 0 1 (1, 1, 1)
        ''sideways'' triangle_heap
     = (Inl (ValueError ''Incorrect input sideways in `gradient_direction`, see docstring.''),
        triangle_heap)"
    by auto
  with d1 d2 grad fs bounds show ?thesis by blast
qed

text \<open>
  C2 as stated fails twice: \<open>nondescent\<close> is neither recognised value and is accepted,
  and with an unrecognised mode and a face index out of range the failure is the
  \<open>IndexError\<close> of the vertex lookup, which follows the gradient computation.
\<close>

theorem invalid_mode_counterexample:
  "''nondescent'' \<noteq> ''descent'' \<and> ''nondescent'' \<noteq> ''ascent''
   \<and> correct_mesh_orientation constant_gradient sample_constant (0, 0, 1) 0 1 (1, 1, 1)
        ''nondescent'' triangle_heap
     = (Inr 2, triangle_heap @ [IntArr [(0, 1, 2), (1, 2, 0)]])
   \<and> correct_mesh_orientation constant_gradient sample_constant (0, 0, 1) 0 1 (1, 1, 1)
        ''sideways'' broken_heap
     = (Inl IndexError, broken_heap)"
  by (simp add: correct_mesh_orientation_def constant_gradient_def sample_constant_def
        triangle_heap_def broken_heap_def fancy_index_def face_in_bounds_def in_bounds_def
        getrow_def wrap_index_def dotproducts_def normalize_row_def row_norm_def
        flip_rows_def alloc_def assign_rows_def nonzero_def sublist_code(3) Let_def)

section \<open>Properties of \<open>marching_cubes\<close>\<close>

lemma fold_min_Min: "fold min xs (x :: real) = Min (set (x # xs))"
  by (rule Min.set_eq_fold [symmetric])

lemma fold_max_Max: "fold max xs (x :: real) = Max (set (x # xs))"
  by (rule Max.set_eq_fold [symmetric])

lemma amin_Min: "xs \<noteq> [] \<Longrightarrow> amin xs = Inr (Min (set xs))"
proof (cases xs)
  case Nil
  assume "xs \<noteq> []"
  with Nil show ?thesis by simp
next
  case (Cons x ys)
  then show ?thesis by (simp only: amin.simps fold_min_Min)
qed

lemma amax_Max: "xs \<noteq> [] \<Longrightarrow> amax xs = Inr (Max (set xs))"
proof (cases xs)
  case Nil
  assume "xs \<noteq> []"
  with Nil show ?thesis by simp
next
  case (Cons x ys)
  then show ?thesis by (simp only: amax.simps fold_max_Max)
qed

lemma Min_le_Max_list: "xs \<noteq> [] \<Longrightarrow> Min (set xs) \<le> Max (set (xs :: real list))"
proof -
  assume "xs \<noteq> []"
  then have "hd xs \<in> set xs" by simp
  then have "Min (set xs) \<le> hd xs" and "hd xs \<le> Max (set xs)" by simp_all
  then show ?thesis by (rule order_trans)
qed

text \<open>
  C7. On a volume with 3 axes and at least one entry, a level strictly below the minimum
  or strictly above the maximum is rejected whatever the traversal would do, so before any
  traversal; a level equal to the minimum or to the maximum passes the check, and the
  result is that of the traversal and the welding.
\<close>

theorem marching_cubes_level_bounds:
  assumes "ndim volume = 3" and "data volume \<noteq> []"
  shows "(level < Min (set (data volume)) \<or> level > Max (set (data volume)) \<longrightarrow>
            marching_cubes iterate_and_store_3d volume level spacing
            = Inl (ValueError ''Contour level must be within volume data range.''))
       \<and> (level = Min (set (data volume)) \<or> level = Max (set (data volume)) \<longrightarrow>
            marching_cubes iterate_and_store_3d volume level spacing
            = (case iterate_and_store_3d volume level spacing of
                 Inl e \<Rightarrow> Inl e
               | Inr raw_faces \<Rightarrow> Inr (unpack_unique_verts raw_faces)))"
  using assms Min_le_Max_list [of "data volume"]
  by (auto simp: marching_cubes_def amin_Min amax_Max)

theorem marching_cubes_level_bounds_witness:
  "ndim corner_volume = 3 \<and> data corner_volume \<noteq> []
   \<and> (2 :: real) > Max (set (data corner_volume))
   \<and> marching_cubes failing_traversal corner_volume 2 (1, 1, 1)
     = Inl (ValueError ''Contour level must be within volume data range.'')
   \<and> (- 1 :: real) < Min (set (data corner_volume))
   \<and> marching_cubes failing_traversal corner_volume (- 1) (1, 1, 1)
     = Inl (ValueError ''Contour level must be within volume data range.'')
   \<and> (0 :: real) = Min (set (data corner_volume))
   \<and> marching_cubes failing_traversal corner_volume 0 (1, 1, 1) = Inl IndexError
   \<and> (1 :: real) = Max (set (data corner_volume))
   \<and> marching_cubes failing_traversal corner_volume 1 (1, 1, 1) = Inl IndexError"
proof -
  have dim: "ndim corner_volume = 3" and ne: "data corner_volume \<noteq> []"
    by (simp_all add: ndim_def corner_volume_def)
  have lo: "Min (set (data corner_volume)) = 0" and hi: "Max (set (data corner_volume)) = 1"
    by (simp_all add: corner_volume_def)
  from marching_cubes_level_bounds [OF dim ne, of 2 failing_traversal "(1, 1, 1)"] hi
  have a: "marching_cubes failing_traversal corner_volume 2 (1, 1, 1)
     = Inl (ValueError ''Contour level must be within volume data range.'')"
    by simp
  from marching_cubes_level_bounds [OF dim ne, of "- 1" failing_traversal "(1, 1, 1)"] lo
  have b: "marching_cubes failing_traversal corner_volume (- 1) (1, 1, 1)
     = Inl (ValueError ''Contour level must be within volume data range.'')"
    by simp
  from marching_cubes_level_bounds [OF dim ne, of 0 failing_traversal "(1, 1, 1)"] lo
  have c: "marching_cubes failing_traversal corner_volume 0 (1, 1, 1) = Inl IndexError"
    by (simp add: failing_traversal_def)
  from marching_cubes_level_bounds [OF dim ne, of 1 failing_traversal "(1, 1, 1)"] hi
  have d: "marching_cubes failing_traversal corner_volume 1 (1, 1, 1) = Inl IndexError"
    by (simp add: failing_traversal_def)
  from dim ne lo hi a b c d show ?thesis by simp
qed

text \<open>
  C8. A volume that does not have exactly 3 axes is rejected with the dimension error,
  whatever the traversal would do, so before any traversal.
\<close>

theorem marching_cubes_dimension:
  "ndim volume \<noteq> 3 \<longrightarrow>
     marching_cubes iterate_and_store_3d volume level spacing
     = Inl (ValueError ''Input volume must have 3 dimensions.'')"
  by (simp add: marching_cubes_def)

theorem marching_cubes_dimension_witness:
  "ndim flat_volume \<noteq> 3
   \<and> marching_cubes failing_traversal flat_volume 0 (1, 1, 1)
     = Inl (ValueError ''Input volume must have 3 dimensions.'')"
proof -
  have dim: "ndim flat_volume \<noteq> 3"
    by (simp add: ndim_def flat_volume_def)
  with marching_cubes_dimension [of flat_volume failing_traversal 0 "(1, 1, 1)"]
  show ?thesis by simp
qed

subsection \<open>Vertex welding\<close>

lemma welder_inv_empty: "welder_inv (Map.empty, [])"
  by (simp add: welder_inv_def)

lemma weld_vertex_inv:
  assumes inv: "welder_inv w" and step: "weld_vertex w v = (w', i)"
  shows "welder_inv w' \<and> i < length (snd w') \<and> length (snd w) \<le> length (snd w')"
proof -
  obtain m vs where w: "w = (m, vs)" by (cases w)
  from inv w have dist: "distinct vs"
    and tab: "\<And>u n. m u = Some n \<longleftrightarrow> n < length vs \<and> vs ! n = u"
    by (simp_all add: welder_inv_def del: split_paired_All)
  show ?thesis
  proof (cases "m v")
    case (Some n)
    with step w have "w' = w" and "i = n" by auto
    with inv Some tab [of v n] w show ?thesis by simp
  next
    case None
    with step w have w': "w' = (m(v \<mapsto> length vs), vs @ [v])" and i: "i = length vs"
      by auto
    have fresh: "v \<notin> set vs"
    proof
      assume "v \<in> set vs"
      then obtain n where "n < length vs" "vs ! n = v" by (auto simp: in_set_conv_nth)
      with tab [of v n] None show False by simp
    qed
    have "welder_inv (m(v \<mapsto> length vs), vs @ [v])"
      unfolding welder_inv_def prod.case
    proof (intro conjI allI)
      from dist fresh show "distinct (vs @ [v])" by simp
    next
      fix u n
      show "(m(v \<mapsto> length vs)) u = Some n \<longleftrightarrow> n < length (vs @ [v]) \<and> (vs @ [v]) ! n = u"
      proof (cases "n < length vs")
        case True
        then have "vs ! n \<in> set vs" by simp
        with fresh have "vs ! n \<noteq> v" by auto
        with True tab [of u n] show ?thesis
          by (auto simp: nth_append)
      next
        case False
        with tab [of u n] show ?thesis
          by (auto simp: nth_append)
      qed
    qed
    with w' i w show ?thesis by simp
  qed
qed

lemma face_valid_mono: "face_valid n f \<Longrightarrow> n \<le> n' \<Longrightarrow> face_valid n' f"
  by (cases f) (auto simp: face_valid_def)

lemma weld_triangle_inv:
  assumes inv: "welder_inv w" and step: "weld_triangle w t = (w', f)"
  shows "welder_inv w' \<and> face_valid (length (snd w')) f \<and> length (snd w) \<le> length (snd w')"
proof -
  obtain p q r where t: "t = (p, q, r)" by (cases t)
  obtain w1 i where s1: "weld_vertex w p = (w1, i)" by (cases "weld_vertex w p")
  obtain w2 j where s2: "weld_vertex w1 q = (w2, j)" by (cases "weld_vertex w1 q")
  obtain w3 k where s3: "weld_vertex w2 r = (w3, k)" by (cases "weld_vertex w2 r")
  from step t s1 s2 s3 have w': "w' = w3" and f: "f = (int i, int j, int k)"
    by auto
  from weld_vertex_inv [OF inv s1]
  have inv1: "welder_inv w1" and i: "i < length (snd w1)"
    and l1: "length (snd w) \<le> length (snd w1)" by simp_all
  from weld_vertex_inv [OF inv1 s2]
  have inv2: "welder_inv w2" and j: "j < length (snd w2)"
    and l2: "length (snd w1) \<le> length (snd w2)" by simp_all
  from weld_vertex_inv [OF inv2 s3]
  have inv3: "welder_inv w3" and k: "k < length (snd w3)"
    and l3: "length (snd w2) \<le> length (snd w3)" by simp_all
  from i j k l1 l2 l3 have "face_valid (length (snd w3)) (int i, int j, int k)"
    by (simp add: face_valid_def)
  with inv3 l1 l2 l3 w' f show ?thesis by simp
qed

lemma weld_all_inv:
  "welder_inv w \<Longrightarrow> weld_all w ts = (w', fs) \<Longrightarrow>
   welder_inv w' \<and> list_all (face_valid (length (snd w'))) fs
   \<and> length (snd w) \<le> length (snd w')"
proof (induction ts arbitrary: w w' fs)
  case Nil
  then show ?case by auto
next
  case (Cons t ts)
  obtain w1 f where s1: "weld_triangle w t = (w1, f)" by (cases "weld_triangle w t")
  obtain w2 gs where s2: "weld_all w1 ts = (w2, gs)" by (cases "weld_all w1 ts")
  from Cons.prems(2) s1 s2 have w': "w' = w2" and fs: "fs = f # gs"
    by auto
  from weld_triangle_inv [OF Cons.prems(1) s1]
  have inv1: "welder_inv w1" and f: "face_valid (length (snd w1)) f"
    and l1: "length (snd w) \<le> length (snd w1)" by simp_all
  from Cons.IH [OF inv1 s2]
  have inv2: "welder_inv w2" and gs: "list_all (face_valid (length (snd w2))) gs"
    and l2: "length (snd w1) \<le> length (snd w2)" by simp_all
  from f l2 have "face_valid (length (snd w2)) f" by (rule face_valid_mono)
  with inv2 gs l1 l2 w' fs show ?case by simp
qed

lemma unpack_unique_verts_mesh:
  assumes "unpack_unique_verts raw_faces = (verts, faces)"
  shows "list_all (face_valid (length verts)) faces \<and> distinct verts"
proof -
  obtain m vs fs where run: "weld_all (Map.empty, []) raw_faces = ((m, vs), fs)"
    by (cases "weld_all (Map.empty, []) raw_faces") auto
  with assms have "verts = vs" and "faces = fs"
    by (simp_all add: unpack_unique_verts_def)
  with weld_all_inv [OF welder_inv_empty run] show ?thesis
    by (simp add: welder_inv_def del: split_paired_All)
qed

text \<open>
  C9. In every mesh that \<open>marching_cubes\<close> returns, each index of each face is a
  position of the vertex array, and no coordinate occurs twice among the vertices.
\<close>

theorem marching_cubes_mesh_invariant:
  "marching_cubes iterate_and_store_3d volume level spacing = Inr (verts, faces) \<longrightarrow>
     list_all (face_valid (length verts)) faces \<and> distinct verts"
proof
  assume "marching_cubes iterate_and_store_3d volume level spacing = Inr (verts, faces)"
  then obtain raw_faces where "unpack_unique_verts raw_faces = (verts, faces)"
    by (auto simp: marching_cubes_def split: if_splits sum.splits)
  then show "list_all (face_valid (length verts)) faces \<and> distinct verts"
    by (rule unpack_unique_verts_mesh)
qed

theorem marching_cubes_mesh_invariant_witness:
  "marching_cubes two_triangles corner_volume (1 / 2) (1, 1, 1)
     = Inr ([(1 / 2, 1, 1), (1, 1 / 2, 1), (1, 1, 1 / 2), (1, 1, 0)], [(0, 1, 2), (1, 0, 3)])
   \<and> list_all
        (face_valid (length ([(1 / 2, 1, 1), (1, 1 / 2, 1), (1, 1, 1 / 2), (1, 1, 0)] :: vec list)))
        [(0, 1, 2), (1, 0, 3)]
   \<and> distinct ([(1 / 2, 1, 1), (1, 1 / 2, 1), (1, 1, 1 / 2), (1, 1, 0)] :: vec list)"
proof -
  have run: "marching_cubes two_triangles corner_volume (1 / 2) (1, 1, 1)
     = Inr ([(1 / 2, 1, 1), (1, 1 / 2, 1), (1, 1, 1 / 2), (1, 1, 0)], [(0, 1, 2), (1, 0, 3)])"
    by (simp add: marching_cubes_def ndim_def corner_volume_def two_triangles_def
          unpack_unique_verts_def)
  with marching_cubes_mesh_invariant
         [of two_triangles corner_volume "1 / 2" "(1, 1, 1)"
             "[(1 / 2, 1, 1), (1, 1 / 2, 1), (1, 1, 1 / 2), (1, 1, 0)]" "[(0, 1, 2), (1, 0, 3)]"]
  show ?thesis by blast
qed

end
